theory Spec2Isabelle
  imports Complex_Main "HOL-Library.Multiset" "HOL-Library.AList"
begin

section \<open>Cells, rows and tables\<close>

text \<open>
  The inventory dashboard (\<^verbatim>\<open>app.py\<close>) fetches documents from the store, turns them
  into a pandas \<^verbatim>\<open>DataFrame\<close> and runs \<^verbatim>\<open>clean_and_transform\<close> over it before it
  aggregates and exports. A cell of a table is one scalar:
  \<^item> \<open>NA\<close>: a missing value (a key absent from the document, \<^verbatim>\<open>None\<close>, \<^verbatim>\<open>NaN\<close>, \<^verbatim>\<open>NaT\<close>);
  \<^item> \<open>IntC\<close>: an integer (an \<^verbatim>\<open>int64\<close> column entry);
  \<^item> \<open>FloatC\<close>: a finite float (a \<^verbatim>\<open>float64\<close> column entry);
  \<^item> \<open>StrC\<close>: a string;
  \<^item> \<open>TimeC\<close>: a timestamp, in nanoseconds since the epoch (\<^verbatim>\<open>datetime64[ns]\<close>);
  \<^item> \<open>ObjC\<close>: any other stored value (an \<^verbatim>\<open>ObjectId\<close>, say), named by a text.

  Numbers are exact: an \<open>IntC\<close> holds an unbounded integer and a \<open>FloatC\<close> a real, so
  the rounding of \<^verbatim>\<open>float64\<close>, the infinities and the range of \<^verbatim>\<open>int64\<close> are not
  part of this development.
\<close>

datatype cell = NA | IntC int | FloatC real | StrC string | TimeC int | ObjC string

type_synonym row = "string \<Rightarrow> cell"

type_synonym series = "cell list"

text \<open>
  A table has its column labels, in order, and its rows, in index order (the index is
  \<^verbatim>\<open>0..n-1\<close>, as \<^verbatim>\<open>pd.DataFrame(list_of_dicts)\<close> builds it). A row gives the cell
  under each label; only the labels in \<open>columns\<close> are columns of the table.
\<close>

record dataframe =
  columns :: "string list"
  rows :: "row list"

text \<open>
  What the library and the clock decide is a parameter of every function below:
  \<^item> \<open>today\<close>: \<^verbatim>\<open>datetime.today().date()\<close>, in days since the epoch;
  \<^item> \<open>to_num\<close>: what \<^verbatim>\<open>pd.to_numeric(errors='coerce')\<close> reads in a scalar that is
    not a number already (\<open>None\<close>: not numeric);
  \<^item> \<open>to_dt\<close>: what \<^verbatim>\<open>pd.to_datetime(errors='coerce')\<close> reads in a scalar of a column
    that is not a timestamp already, in nanoseconds since the epoch (\<open>None\<close>: not a
    date); the column is an argument, since pandas infers one format for the column;
  \<^item> \<open>py_str\<close>: Python's \<^verbatim>\<open>str\<close> of a stored value;
  \<^item> \<open>csv_text\<close>: the text \<^verbatim>\<open>to_csv\<close> writes for a cell.
\<close>

record env =
  today :: int
  to_num :: "cell \<Rightarrow> real option"
  to_dt :: "series \<Rightarrow> cell \<Rightarrow> int option"
  py_str :: "cell \<Rightarrow> string"
  csv_text :: "cell \<Rightarrow> string"

subsection \<open>The pandas operations the code calls\<close>

definition empty_df :: "dataframe \<Rightarrow> bool" where
  \<comment> \<open>\<^verbatim>\<open>df.empty\<close>: no column or no row\<close>
  "empty_df df \<longleftrightarrow> columns df = [] \<or> rows df = []"

definition column :: "dataframe \<Rightarrow> string \<Rightarrow> series" where
  \<comment> \<open>\<^verbatim>\<open>df[c]\<close> for a label that is a column\<close>
  "column df c = map (\<lambda>r. r c) (rows df)"

definition reindex :: "nat \<Rightarrow> series \<Rightarrow> series" where
  \<comment> \<open>alignment of a series on the index \<^verbatim>\<open>0..n-1\<close>: a label the series lacks gives \<open>NA\<close>\<close>
  "reindex n s = map (\<lambda>i. if i < length s then s ! i else NA) [0..<n]"

definition setitem :: "dataframe \<Rightarrow> string \<Rightarrow> series \<Rightarrow> dataframe" where
  \<comment> \<open>\<^verbatim>\<open>df[c] = s\<close>: the series is aligned on the table's index; a new label goes last\<close>
  "setitem df c s =
     df\<lparr>columns := (if c \<in> set (columns df) then columns df else columns df @ [c]),
        rows := map (\<lambda>(r, v). r(c := v)) (zip (rows df) (reindex (length (rows df)) s))\<rparr>"

definition setitem_scalar :: "dataframe \<Rightarrow> string \<Rightarrow> cell \<Rightarrow> dataframe" where
  \<comment> \<open>\<^verbatim>\<open>df[c] = v\<close> for a scalar: every row gets it\<close>
  "setitem_scalar df c v = setitem df c (replicate (length (rows df)) v)"

definition df_get :: "dataframe \<Rightarrow> string \<Rightarrow> series \<Rightarrow> series" where
  \<comment> \<open>\<^verbatim>\<open>df.get(c, default)\<close>\<close>
  "df_get df c dflt = (if c \<in> set (columns df) then column df c else dflt)"

datatype num = Int64 int | Float64 real

definition to_numeric :: "env \<Rightarrow> series \<Rightarrow> num option list" where
  \<comment> \<open>\<^verbatim>\<open>pd.to_numeric(s, errors='coerce')\<close>; \<open>None\<close> is \<^verbatim>\<open>NaN\<close>\<close>
  "to_numeric e s =
     map (\<lambda>c. case c of
            NA \<Rightarrow> None
          | IntC i \<Rightarrow> Some (Int64 i)
          | FloatC f \<Rightarrow> Some (Float64 f)
          | _ \<Rightarrow> map_option Float64 (to_num e c)) s"

definition fillna_num :: "num \<Rightarrow> num option list \<Rightarrow> num list" where
  "fillna_num d s = map (\<lambda>x. case x of None \<Rightarrow> d | Some v \<Rightarrow> v) s"

definition trunc :: "real \<Rightarrow> int" where
  \<comment> \<open>the cast of a float to an integer drops the fraction (towards zero)\<close>
  "trunc f = (if 0 \<le> f then \<lfloor>f\<rfloor> else \<lceil>f\<rceil>)"

definition astype_int :: "num list \<Rightarrow> int list" where
  "astype_int s = map (\<lambda>v. case v of Int64 i \<Rightarrow> i | Float64 f \<Rightarrow> trunc f) s"

definition astype_float :: "num list \<Rightarrow> real list" where
  "astype_float s = map (\<lambda>v. case v of Int64 i \<Rightarrow> of_int i | Float64 f \<Rightarrow> f) s"

definition to_datetime :: "env \<Rightarrow> series \<Rightarrow> series" where
  \<comment> \<open>\<^verbatim>\<open>pd.to_datetime(s, errors='coerce')\<close>; \<open>NA\<close> is \<^verbatim>\<open>NaT\<close>\<close>
  "to_datetime e s =
     map (\<lambda>c. case c of
            NA \<Rightarrow> NA
          | TimeC t \<Rightarrow> TimeC t
          | _ \<Rightarrow> (case to_dt e s c of None \<Rightarrow> NA | Some t \<Rightarrow> TimeC t)) s"

definition fillna :: "cell \<Rightarrow> series \<Rightarrow> series" where
  "fillna v s = map (\<lambda>c. if c = NA then v else c) s"

fun mul_cell :: "cell \<Rightarrow> cell \<Rightarrow> cell" where
  \<comment> \<open>the product of two numeric entries; an \<^verbatim>\<open>int64\<close> times a \<^verbatim>\<open>float64\<close> is a float.
     A missing operand gives a missing product; the two columns multiplied below were
     both assigned numbers just before, so no other operand occurs\<close>
  "mul_cell (IntC a) (FloatC b) = FloatC (of_int a * b)"
| "mul_cell (IntC a) (IntC b) = IntC (a * b)"
| "mul_cell (FloatC a) (FloatC b) = FloatC (a * b)"
| "mul_cell (FloatC a) (IntC b) = FloatC (a * of_int b)"
| "mul_cell _ _ = NA"

definition mul_series :: "series \<Rightarrow> series \<Rightarrow> series" where
  "mul_series s t = map (\<lambda>(a, b). mul_cell a b) (zip s t)"

definition ns_per_day :: int where
  "ns_per_day = 86400000000000"

definition timestamp_of_date :: "int \<Rightarrow> int" where
  \<comment> \<open>\<^verbatim>\<open>pd.Timestamp(date)\<close>: midnight of that day\<close>
  "timestamp_of_date d = d * ns_per_day"

definition days_since :: "int \<Rightarrow> series \<Rightarrow> int option list" where
  \<comment> \<open>\<^verbatim>\<open>(today - s).dt.days\<close> on a \<^verbatim>\<open>datetime64\<close> column: the day component of the
     difference (the floor of the difference in days); \<open>None\<close> is \<^verbatim>\<open>NaN\<close>, for \<^verbatim>\<open>NaT\<close>\<close>
  "days_since t s =
     map (\<lambda>c. case c of TimeC u \<Rightarrow> Some ((t - u) div ns_per_day) | _ \<Rightarrow> None) s"

definition fillna_int :: "int \<Rightarrow> int option list \<Rightarrow> int list" where
  "fillna_int d s = map (\<lambda>x. case x of None \<Rightarrow> d | Some v \<Rightarrow> v) s"

section \<open>\<^verbatim>\<open>clean_and_transform\<close>\<close>

text \<open>
  The function assigns into the table it is given, one statement after the other, and
  returns that table. Each statement is a function from the table before it to the table
  after it; \<open>clean_and_transform\<close> is the contents of the table when the call returns.
\<close>

definition set_quantity :: "env \<Rightarrow> dataframe \<Rightarrow> dataframe" where
  "set_quantity e df =
     (if ''quantity'' \<in> set (columns df)
      then setitem df ''quantity''
             (map IntC (astype_int (fillna_num (Int64 0) (to_numeric e (column df ''quantity'')))))
      else setitem_scalar df ''quantity'' (IntC 0))"

definition set_price :: "env \<Rightarrow> dataframe \<Rightarrow> dataframe" where
  "set_price e df =
     (if ''price'' \<in> set (columns df)
      then setitem df ''price''
             (map FloatC (astype_float (fillna_num (Float64 0) (to_numeric e (column df ''price'')))))
      else setitem_scalar df ''price'' (FloatC 0))"

definition set_last_restock :: "env \<Rightarrow> dataframe \<Rightarrow> dataframe" where
  "set_last_restock e df =
     (if ''last_restock'' \<in> set (columns df)
      then setitem df ''last_restock'' (to_datetime e (column df ''last_restock''))
      else setitem_scalar df ''last_restock'' NA)"

definition set_name :: "dataframe \<Rightarrow> dataframe" where
  \<comment> \<open>\<^verbatim>\<open>df['name'] = df.get('name', pd.Series()).fillna('Unknown')\<close>: the default is the
     empty series, filled before it is aligned on the table\<close>
  "set_name df = setitem df ''name'' (fillna (StrC ''Unknown'') (df_get df ''name'' []))"

definition set_sku :: "dataframe \<Rightarrow> dataframe" where
  "set_sku df = setitem df ''sku'' (fillna (StrC '''') (df_get df ''sku'' []))"

definition set_value :: "dataframe \<Rightarrow> dataframe" where
  "set_value df =
     setitem df ''value'' (mul_series (column df ''quantity'') (column df ''price''))"

definition set_days_since_restock :: "env \<Rightarrow> dataframe \<Rightarrow> dataframe" where
  \<comment> \<open>the two assignments to \<^verbatim>\<open>days_since_restock\<close>: the day counts, then
     \<^verbatim>\<open>fillna(-1).astype(int)\<close> over them\<close>
  "set_days_since_restock e df =
     setitem df ''days_since_restock''
       (map IntC (fillna_int (- 1)
          (days_since (timestamp_of_date (today e)) (column df ''last_restock''))))"

definition clean_and_transform :: "env \<Rightarrow> dataframe \<Rightarrow> dataframe" where
  "clean_and_transform e df =
     (if empty_df df then df
      else set_days_since_restock e
             (set_value (set_sku (set_name (set_last_restock e (set_price e (set_quantity e df)))))))"

subsection \<open>The call, on the caller's table\<close>





section \<open>From documents to a table\<close>

text \<open>
  A document is a Python \<^verbatim>\<open>dict\<close>: its keys in insertion order, each once.
  \<^verbatim>\<open>doc['id'] = v\<close> keeps the place of a key the dict has and puts a new key last.
  \<^verbatim>\<open>pd.DataFrame(list_of_dicts)\<close> takes the keys in the order they are first met as its
  columns; a key a document lacks gives a missing cell.
\<close>

type_synonym doc = "(string \<times> cell) list"

definition first_seen :: "'a list \<Rightarrow> 'a list" where
  "first_seen xs = rev (remdups (rev xs))"

definition row_of_doc :: "doc \<Rightarrow> row" where
  "row_of_doc d = (\<lambda>k. case map_of d k of None \<Rightarrow> NA | Some v \<Rightarrow> v)"

definition DataFrame :: "doc list \<Rightarrow> dataframe" where
  "DataFrame ds = \<lparr>columns = first_seen (concat (map (map fst) ds)), rows = map row_of_doc ds\<rparr>"

definition tag_id :: "env \<Rightarrow> doc \<Rightarrow> doc" where
  \<comment> \<open>the body of the loop of \<^verbatim>\<open>raw_docs_to_df\<close>, on a copy of the document\<close>
  "tag_id e d =
     (case map_of d ''_id'' of
        Some v \<Rightarrow> AList.delete ''_id'' (AList.update ''id'' (StrC (py_str e v)) d)
      | None \<Rightarrow> d)"

definition raw_docs_to_df :: "env \<Rightarrow> doc list \<Rightarrow> dataframe" where
  "raw_docs_to_df e docs =
     (if docs = [] then \<lparr>columns = [], rows = []\<rparr> else DataFrame (map (tag_id e) docs))"

section \<open>Aggregates of the view\<close>


definition float_val :: "cell \<Rightarrow> real" where
  \<comment> \<open>an entry of a float column as \<^verbatim>\<open>sum\<close> adds it\<close>
  "float_val c = (case c of FloatC f \<Rightarrow> f | IntC i \<Rightarrow> of_int i | _ \<Rightarrow> 0)"

record group_row =
  category :: cell
  total_qty :: int
  total_value :: real





definition num_key :: "cell \<Rightarrow> real option" where
  "num_key c = (case c of IntC i \<Rightarrow> Some (of_int i) | FloatC f \<Rightarrow> Some f | _ \<Rightarrow> None)"

definition in_order :: "bool \<Rightarrow> cell \<Rightarrow> cell \<Rightarrow> bool" where
  \<comment> \<open>may a row with the first key stand before a row with the second: numbers in the
     direction asked for, a missing key after every number (\<^verbatim>\<open>na_position='last'\<close>)\<close>
  "in_order ascending a b =
     (case (num_key a, num_key b) of
        (Some x, Some y) \<Rightarrow> (if ascending then x \<le> y else y \<le> x)
      | (_, None) \<Rightarrow> True
      | (None, Some y) \<Rightarrow> False)"

definition is_sort_values :: "string \<Rightarrow> bool \<Rightarrow> dataframe \<Rightarrow> dataframe \<Rightarrow> bool" where
  \<comment> \<open>\<open>out\<close> is a result of \<^verbatim>\<open>df.sort_values(c, ascending=...)\<close>. The call passes no
     \<^verbatim>\<open>kind\<close>, so the sort is pandas' default \<^verbatim>\<open>quicksort\<close>, which promises the order
     of the keys and nothing about rows of equal key; rows of missing key keep their order\<close>
  "is_sort_values c ascending df out \<longleftrightarrow>
     columns out = columns df \<and>
     mset (rows out) = mset (rows df) \<and>
     sorted_wrt (\<lambda>a b. in_order ascending (a c) (b c)) (rows out) \<and>
     filter (\<lambda>r. num_key (r c) = None) (rows out) = filter (\<lambda>r. num_key (r c) = None) (rows df)"

definition head :: "nat \<Rightarrow> dataframe \<Rightarrow> dataframe" where
  "head n df = df\<lparr>rows := take n (rows df)\<rparr>"

definition select_rows :: "(row \<Rightarrow> bool) \<Rightarrow> dataframe \<Rightarrow> dataframe" where
  \<comment> \<open>\<^verbatim>\<open>df[mask]\<close>\<close>
  "select_rows p df = df\<lparr>rows := filter p (rows df)\<rparr>"

definition select_columns :: "string list \<Rightarrow> dataframe \<Rightarrow> dataframe" where
  \<comment> \<open>\<^verbatim>\<open>df[cols]\<close> for labels that are columns\<close>
  "select_columns cs df = df\<lparr>columns := cs\<rparr>"

definition name_value :: "dataframe \<Rightarrow> (cell \<times> cell) list" where
  \<comment> \<open>\<^verbatim>\<open>.set_index('name')[['value']]\<close>: per row the index entry and the one column\<close>
  "name_value df = map (\<lambda>r. (r ''name'', r ''value'')) (rows df)"

inductive top_by_value :: "dataframe \<Rightarrow> (cell \<times> cell) list \<Rightarrow> bool" where
  top_by_valueI:
    "''value'' \<in> set (columns df) \<Longrightarrow> ''name'' \<in> set (columns df) \<Longrightarrow>
     is_sort_values ''value'' False df s \<Longrightarrow>
     top_by_value df (name_value (head 10 s))"

definition le_thresh :: "cell \<Rightarrow> int \<Rightarrow> bool" where
  \<comment> \<open>\<^verbatim>\<open>df['quantity'] <= low_stock_thresh\<close>, per entry; a missing entry compares false\<close>
  "le_thresh c t = (case c of IntC q \<Rightarrow> q \<le> t | FloatC f \<Rightarrow> f \<le> of_int t | _ \<Rightarrow> False)"

inductive low :: "int \<Rightarrow> dataframe \<Rightarrow> dataframe \<Rightarrow> bool" where
  lowI:
    "''quantity'' \<in> set (columns df) \<Longrightarrow>
     is_sort_values ''quantity'' True (select_rows (\<lambda>r. le_thresh (r ''quantity'') t) df) s \<Longrightarrow>
     low t df (head 20 s)"

definition stable_sort_values :: "string \<Rightarrow> bool \<Rightarrow> dataframe \<Rightarrow> dataframe" where
  \<comment> \<open>the stable sort by a numeric column: rows of equal key stay in the table's order\<close>
  "stable_sort_values c ascending df =
     df\<lparr>rows := sort_key (\<lambda>r. if ascending then float_val (r c) else - float_val (r c)) (rows df)\<rparr>"

section \<open>Export\<close>

definition newline :: char where
  "newline = CHR 0x0A"

definition comma :: char where
  "comma = CHR 0x2C"

definition dquote :: char where
  "dquote = CHR 0x22"

definition needs_quotes :: "string \<Rightarrow> bool" where
  "needs_quotes s \<longleftrightarrow> (\<exists>c \<in> set s. c = comma \<or> c = dquote \<or> c = newline \<or> c = CHR 0x0D)"

definition csv_field :: "string \<Rightarrow> string" where
  \<comment> \<open>minimal quoting, the default of \<^verbatim>\<open>to_csv\<close>\<close>
  "csv_field s =
     (if needs_quotes s
      then dquote # concat (map (\<lambda>c. if c = dquote then [dquote, dquote] else [c]) s) @ [dquote]
      else s)"

fun join :: "char \<Rightarrow> string list \<Rightarrow> string" where
  "join sep [] = []"
| "join sep [x] = x"
| "join sep (x # y # ys) = x @ sep # join sep (y # ys)"

definition csv_line :: "string list \<Rightarrow> string" where
  "csv_line fs = join comma (map csv_field fs) @ [newline]"

definition to_csv :: "env \<Rightarrow> dataframe \<Rightarrow> string" where
  \<comment> \<open>\<^verbatim>\<open>df.to_csv(index=False)\<close>: the header, then one line per row; a line ends with
     the line feed (the line separator of the platform the dashboard runs on)\<close>
  "to_csv e df =
     csv_line (columns df) @
     concat (map (\<lambda>r. csv_line (map (\<lambda>c. csv_text e (r c)) (columns df))) (rows df))"

definition bom :: string where
  \<comment> \<open>the byte order mark \<^verbatim>\<open>utf-8-sig\<close> puts first\<close>
  "bom = [CHR 0xEF, CHR 0xBB, CHR 0xBF]"

definition dataframe_to_csv_bytes_local :: "env \<Rightarrow> dataframe \<Rightarrow> bool \<Rightarrow> string" where
  \<comment> \<open>a \<open>string\<close> is a list of bytes: the text is taken as encoded in UTF-8 already\<close>
  "dataframe_to_csv_bytes_local e df include_bom =
     (if empty_df df then []
      else if include_bom then bom @ to_csv e df else to_csv e df)"

definition display_order :: "string list" where
  "display_order =
     [''sku'', ''name'', ''category'', ''quantity'', ''price'', ''value'', ''supplier'',
      ''last_restock'', ''days_since_restock'', ''id'']"

definition display_cols :: "dataframe \<Rightarrow> string list" where
  "display_cols df = filter (\<lambda>c. c \<in> set (columns df)) display_order"

definition prepare_filtered :: "env \<Rightarrow> dataframe \<Rightarrow> string" where
  \<comment> \<open>the bytes of \<^verbatim>\<open>Download CURRENT view as CSV\<close>, from the table fetched\<close>
  "prepare_filtered e df_raw =
     (let df = clean_and_transform e df_raw
      in dataframe_to_csv_bytes_local e (select_columns (display_cols df) df) True)"

definition download_all_now :: "env \<Rightarrow> doc list \<Rightarrow> string" where
  \<comment> \<open>the bytes of \<^verbatim>\<open>Download FULL inventory CSV\<close>, from all documents of the store\<close>
  "download_all_now e all_docs =
     dataframe_to_csv_bytes_local e (clean_and_transform e (raw_docs_to_df e all_docs)) True"

definition csv_header :: "string \<Rightarrow> string" where
  \<comment> \<open>the first line of exported bytes, the mark and the line end left out\<close>
  "csv_header bs =
     takeWhile (\<lambda>c. c \<noteq> newline) (if take 3 bs = bom then drop 3 bs else bs)"

section \<open>What one row becomes\<close>

text \<open>
  The statements of \<open>clean_and_transform\<close> work on whole columns. Their effect on one row
  is collected here; \<open>rows_clean\<close> below proves that the function does this to each row.
\<close>

definition coerce_quantity :: "env \<Rightarrow> cell \<Rightarrow> int" where
  "coerce_quantity e c =
     (case c of NA \<Rightarrow> 0 | IntC i \<Rightarrow> i | FloatC f \<Rightarrow> trunc f
      | _ \<Rightarrow> (case to_num e c of None \<Rightarrow> 0 | Some x \<Rightarrow> trunc x))"

definition coerce_price :: "env \<Rightarrow> cell \<Rightarrow> real" where
  "coerce_price e c =
     (case c of NA \<Rightarrow> 0 | IntC i \<Rightarrow> of_int i | FloatC f \<Rightarrow> f
      | _ \<Rightarrow> (case to_num e c of None \<Rightarrow> 0 | Some x \<Rightarrow> x))"

definition coerce_date :: "env \<Rightarrow> series \<Rightarrow> cell \<Rightarrow> cell" where
  "coerce_date e s c =
     (case c of NA \<Rightarrow> NA | TimeC t \<Rightarrow> TimeC t
      | _ \<Rightarrow> (case to_dt e s c of None \<Rightarrow> NA | Some t \<Rightarrow> TimeC t))"

definition day_count :: "env \<Rightarrow> cell \<Rightarrow> int" where
  "day_count e c =
     (case c of TimeC u \<Rightarrow> (timestamp_of_date (today e) - u) div ns_per_day | _ \<Rightarrow> - 1)"

definition quantity_in :: "env \<Rightarrow> dataframe \<Rightarrow> row \<Rightarrow> int" where
  "quantity_in e df r =
     (if ''quantity'' \<in> set (columns df) then coerce_quantity e (r ''quantity'') else 0)"

definition price_in :: "env \<Rightarrow> dataframe \<Rightarrow> row \<Rightarrow> real" where
  "price_in e df r =
     (if ''price'' \<in> set (columns df) then coerce_price e (r ''price'') else 0)"

definition restock_in :: "env \<Rightarrow> dataframe \<Rightarrow> row \<Rightarrow> cell" where
  "restock_in e df r =
     (if ''last_restock'' \<in> set (columns df)
      then coerce_date e (column df ''last_restock'') (r ''last_restock'') else NA)"

definition text_in :: "string \<Rightarrow> string \<Rightarrow> dataframe \<Rightarrow> row \<Rightarrow> cell" where
  "text_in c dflt df r =
     (if c \<in> set (columns df) then (if r c = NA then StrC dflt else r c) else NA)"

definition clean_row :: "env \<Rightarrow> dataframe \<Rightarrow> row \<Rightarrow> row" where
  "clean_row e df r =
     r(''quantity'' := IntC (quantity_in e df r),
       ''price'' := FloatC (price_in e df r),
       ''last_restock'' := restock_in e df r,
       ''name'' := text_in ''name'' ''Unknown'' df r,
       ''sku'' := text_in ''sku'' '''' df r,
       ''value'' := FloatC (of_int (quantity_in e df r) * price_in e df r),
       ''days_since_restock'' := IntC (day_count e (restock_in e df r)))"

definition add_col :: "string \<Rightarrow> string list \<Rightarrow> string list" where
  "add_col c cs = (if c \<in> set cs then cs else cs @ [c])"

definition clean_columns :: "string list \<Rightarrow> string list" where
  "clean_columns cs =
     add_col ''days_since_restock'' (add_col ''value'' (add_col ''sku'' (add_col ''name''
       (add_col ''last_restock'' (add_col ''price'' (add_col ''quantity'' cs))))))"


section \<open>Sample inputs\<close>

text \<open>
  The day is 2025-11-04 (day 20396 since the epoch). The sample library reads the number
  in \<^verbatim>\<open>"5"\<close> and the dates in \<^verbatim>\<open>"2025-10-01"\<close> and \<^verbatim>\<open>"2025-11-05"\<close>, and nothing in
  any other text.
\<close>

definition env0 :: env where
  "env0 =
     \<lparr>today = 20396,
      to_num = (\<lambda>c. if c = StrC ''5'' then Some 5 else None),
      to_dt = (\<lambda>s c. if c = StrC ''2025-10-01'' then Some (20362 * ns_per_day)
                      else if c = StrC ''2025-11-05'' then Some (20397 * ns_per_day)
                      else None),
      py_str = (\<lambda>c. case c of StrC s \<Rightarrow> s | ObjC s \<Rightarrow> s | _ \<Rightarrow> []),
      csv_text = (\<lambda>c. case c of StrC s \<Rightarrow> s | _ \<Rightarrow> [])\<rparr>"



text \<open>Restock dates: a past one, none, one that is no date, and tomorrow's.\<close>

definition restock_docs :: "doc list" where
  "restock_docs =
     [[(''name'', StrC ''a''), (''last_restock'', StrC ''2025-10-01'')],
      [(''name'', StrC ''b'')],
      [(''name'', StrC ''c''), (''last_restock'', StrC ''soon'')],
      [(''name'', StrC ''d''), (''last_restock'', StrC ''2025-11-05'')]]"

text \<open>Documents none of which has a name.\<close>

definition nameless_docs :: "doc list" where
  "nameless_docs = [[(''sku'', StrC ''S1''), (''quantity'', IntC 1)]]"



text \<open>The first of the seeded products, as the store returns it.\<close>

definition seeded_docs :: "doc list" where
  "seeded_docs =
     [[(''_id'', ObjC ''65a1''), (''sku'', StrC ''SKU1001''), (''name'', StrC ''Classic T-Shirt''),
       (''category'', StrC ''Apparel''), (''quantity'', IntC 120), (''price'', FloatC 399),
       (''supplier'', StrC ''Textile Co''), (''last_restock'', StrC ''2025-10-01'')]]"


text \<open>Four stock levels, two of them equal.\<close>

definition stock_docs :: "doc list" where
  "stock_docs =
     [[(''name'', StrC ''a''), (''quantity'', IntC 50)],
      [(''name'', StrC ''b''), (''quantity'', IntC 10)],
      [(''name'', StrC ''c''), (''quantity'', IntC 5)],
      [(''name'', StrC ''d''), (''quantity'', IntC 10)]]"


section \<open>Notions of the specification\<close>


definition restock_unknown :: "env \<Rightarrow> dataframe \<Rightarrow> row \<Rightarrow> bool" where
  \<comment> \<open>the row's \<^verbatim>\<open>last_restock\<close> is absent, or the library reads no date in it\<close>
  "restock_unknown e df r \<longleftrightarrow>
     ''last_restock'' \<notin> set (columns df) \<or>
     (case r ''last_restock'' of
        NA \<Rightarrow> True
      | TimeC t \<Rightarrow> False
      | c \<Rightarrow> to_dt e (column df ''last_restock'') c = None)"


section \<open>Columns and rows after each statement\<close>

lemma reindex_same: "reindex (length s) s = s"
  by (rule nth_equalityI) (simp_all add: reindex_def)

lemma reindex_Nil: "reindex n [] = replicate n NA"
  by (simp add: reindex_def map_replicate_const)

lemma rows_setitem_aligned:
  "length s = length (rows df) \<Longrightarrow>
     rows (setitem df c s) = map (\<lambda>(r, v). r(c := v)) (zip (rows df) s)"
  using reindex_same [of s] by (simp add: setitem_def)

lemma rows_setitem_col:
  "rows (setitem df c (map g (column df c'))) = map (\<lambda>r. r(c := g (r c'))) (rows df)"
  by (simp add: rows_setitem_aligned column_def zip_map2 zip_same_conv_map o_def)

lemma rows_setitem_scalar:
  "rows (setitem_scalar df c v) = map (\<lambda>r. r(c := v)) (rows df)"
proof -
  have "replicate (length (rows df)) v = map (\<lambda>r. v) (rows df)"
    by (simp add: map_replicate_const)
  then show ?thesis
    by (simp add: setitem_scalar_def rows_setitem_aligned zip_map2 zip_same_conv_map o_def)
qed

lemma rows_setitem_Nil:
  "rows (setitem df c []) = map (\<lambda>r. r(c := NA)) (rows df)"
proof -
  have "reindex (length (rows df)) [] = map (\<lambda>r. NA) (rows df)"
    by (simp add: reindex_Nil map_replicate_const)
  then show ?thesis
    by (simp add: setitem_def zip_map2 zip_same_conv_map o_def)
qed

lemma columns_setitem: "columns (setitem df c s) = add_col c (columns df)"
  by (simp add: setitem_def add_col_def)

lemma columns_setitem_scalar: "columns (setitem_scalar df c v) = add_col c (columns df)"
  by (simp add: setitem_scalar_def columns_setitem)

lemma set_add_col: "set (add_col c cs) = insert c (set cs)"
  by (auto simp: add_col_def)

lemma quantity_chain:
  "astype_int (fillna_num (Int64 0) (to_numeric e s)) = map (coerce_quantity e) s"
  by (auto simp: astype_int_def fillna_num_def to_numeric_def coerce_quantity_def
      split: cell.splits option.splits)

lemma price_chain:
  "astype_float (fillna_num (Float64 0) (to_numeric e s)) = map (coerce_price e) s"
  by (auto simp: astype_float_def fillna_num_def to_numeric_def coerce_price_def
      split: cell.splits option.splits)

lemma to_datetime_map: "to_datetime e s = map (coerce_date e s) s"
  by (simp add: to_datetime_def coerce_date_def)

lemma days_chain:
  "fillna_int (- 1) (days_since (timestamp_of_date (today e)) s) = map (day_count e) s"
  by (auto simp: fillna_int_def days_since_def day_count_def split: cell.splits)

lemma rows_set_quantity:
  "rows (set_quantity e df) = map (\<lambda>r. r(''quantity'' := IntC (quantity_in e df r))) (rows df)"
  by (simp add: set_quantity_def quantity_chain rows_setitem_col rows_setitem_scalar
      quantity_in_def)

lemma rows_set_price:
  "rows (set_price e df) = map (\<lambda>r. r(''price'' := FloatC (price_in e df r))) (rows df)"
  by (simp add: set_price_def price_chain rows_setitem_col rows_setitem_scalar price_in_def)

lemma rows_set_last_restock:
  "rows (set_last_restock e df) =
     map (\<lambda>r. r(''last_restock'' := restock_in e df r)) (rows df)"
  by (simp add: set_last_restock_def to_datetime_map rows_setitem_col rows_setitem_scalar
      restock_in_def)

lemma fillna_column:
  "fillna v (column df c) = map (\<lambda>x. if x = NA then v else x) (column df c)"
  by (simp add: fillna_def)

lemma rows_set_name:
  "rows (set_name df) = map (\<lambda>r. r(''name'' := text_in ''name'' ''Unknown'' df r)) (rows df)"
  by (simp add: set_name_def df_get_def fillna_column rows_setitem_col text_in_def)
     (simp add: fillna_def rows_setitem_Nil)

lemma rows_set_sku:
  "rows (set_sku df) = map (\<lambda>r. r(''sku'' := text_in ''sku'' '''' df r)) (rows df)"
  by (simp add: set_sku_def df_get_def fillna_column rows_setitem_col text_in_def)
     (simp add: fillna_def rows_setitem_Nil)

lemma rows_set_value:
  "rows (set_value df) =
     map (\<lambda>r. r(''value'' := mul_cell (r ''quantity'') (r ''price''))) (rows df)"
  by (simp add: set_value_def mul_series_def column_def rows_setitem_aligned zip_map2 zip_map1
      zip_same_conv_map o_def)

lemma rows_set_days:
  "rows (set_days_since_restock e df) =
     map (\<lambda>r. r(''days_since_restock'' := IntC (day_count e (r ''last_restock'')))) (rows df)"
  by (simp add: set_days_since_restock_def days_chain rows_setitem_col)

lemma columns_set_quantity: "columns (set_quantity e df) = add_col ''quantity'' (columns df)"
  by (simp add: set_quantity_def columns_setitem columns_setitem_scalar)

lemma columns_set_price: "columns (set_price e df) = add_col ''price'' (columns df)"
  by (simp add: set_price_def columns_setitem columns_setitem_scalar)

lemma columns_set_last_restock:
  "columns (set_last_restock e df) = add_col ''last_restock'' (columns df)"
  by (simp add: set_last_restock_def columns_setitem columns_setitem_scalar)

lemma columns_set_name: "columns (set_name df) = add_col ''name'' (columns df)"
  by (simp add: set_name_def columns_setitem)

lemma columns_set_sku: "columns (set_sku df) = add_col ''sku'' (columns df)"
  by (simp add: set_sku_def columns_setitem)

lemma columns_set_value: "columns (set_value df) = add_col ''value'' (columns df)"
  by (simp add: set_value_def columns_setitem)

lemma columns_set_days:
  "columns (set_days_since_restock e df) = add_col ''days_since_restock'' (columns df)"
  by (simp add: set_days_since_restock_def columns_setitem)

lemmas columns_steps = columns_set_quantity columns_set_price columns_set_last_restock
  columns_set_name columns_set_sku columns_set_value columns_set_days

lemmas rows_steps = rows_set_quantity rows_set_price rows_set_last_restock
  rows_set_name rows_set_sku rows_set_value rows_set_days

lemma columns_clean:
  "\<not> empty_df df \<Longrightarrow> columns (clean_and_transform e df) = clean_columns (columns df)"
  by (simp add: clean_and_transform_def columns_steps clean_columns_def)

lemma column_last_restock_kept:
  "column (set_price e (set_quantity e df)) ''last_restock'' = column df ''last_restock''"
  by (simp add: column_def rows_steps o_def)

lemma rows_clean:
  "\<not> empty_df df \<Longrightarrow> rows (clean_and_transform e df) = map (clean_row e df) (rows df)"
  by (simp add: clean_and_transform_def rows_steps columns_steps set_add_col o_def
      clean_row_def quantity_in_def price_in_def restock_in_def text_in_def
      column_last_restock_kept)


section \<open>The rows of the cleaned table\<close>

lemma length_rows_clean: "length (rows (clean_and_transform e df)) = length (rows df)"
  by (cases "empty_df df") (simp_all add: rows_clean, simp add: clean_and_transform_def)

lemma nth_rows_clean:
  "columns df \<noteq> [] \<Longrightarrow> i < length (rows df) \<Longrightarrow>
     rows (clean_and_transform e df) ! i = clean_row e df (rows df ! i)"
  by (subst rows_clean) (auto simp: empty_df_def)

lemmas sample_simps = DataFrame_def first_seen_def row_of_doc_def clean_row_def
  quantity_in_def price_in_def restock_in_def text_in_def coerce_quantity_def coerce_price_def
  coerce_date_def day_count_def column_def timestamp_of_date_def ns_per_day_def trunc_def
  env0_def




text \<open>
  Claim C4. A row whose \<^verbatim>\<open>last_restock\<close> is absent, or is a value in which the library
  reads no date, gets \<^verbatim>\<open>days_since_restock = -1\<close>.
\<close>

theorem unknown_restock_sentinel:
  assumes "columns df \<noteq> []" and "i < length (rows df)"
    and "restock_unknown e df (rows df ! i)"
  shows "(rows (clean_and_transform e df) ! i) ''days_since_restock'' = IntC (- 1)"
proof -
  have "restock_in e df (rows df ! i) = NA"
    using assms(3)
    by (auto simp: restock_unknown_def restock_in_def coerce_date_def split: cell.splits)
  then show ?thesis
    using assms(1,2) by (simp add: nth_rows_clean clean_row_def day_count_def)
qed

theorem unknown_restock_sentinel_witness:
  "columns (DataFrame restock_docs) \<noteq> [] \<and> 
   1 < length (rows (DataFrame restock_docs)) \<and>
   2 < length (rows (DataFrame restock_docs)) \<and>
   restock_unknown env0 (DataFrame restock_docs) (rows (DataFrame restock_docs) ! 1) \<and>
   restock_unknown env0 (DataFrame restock_docs) (rows (DataFrame restock_docs) ! 2) \<and>
   (rows (clean_and_transform env0 (DataFrame restock_docs)) ! 1) ''days_since_restock'' = IntC (- 1) \<and>
   (rows (clean_and_transform env0 (DataFrame restock_docs)) ! 2) ''days_since_restock'' = IntC (- 1)"
proof -
  have c: "columns (DataFrame restock_docs) \<noteq> []"
    by (simp add: DataFrame_def restock_docs_def first_seen_def)
  have l: "1 < length (rows (DataFrame restock_docs))" "2 < length (rows (DataFrame restock_docs))"
    by (simp_all add: DataFrame_def restock_docs_def)
  have u1: "restock_unknown env0 (DataFrame restock_docs) (rows (DataFrame restock_docs) ! 1)"
    by (simp add: restock_unknown_def sample_simps restock_docs_def)
  have u2: "restock_unknown env0 (DataFrame restock_docs) (rows (DataFrame restock_docs) ! 2)"
    by (simp add: restock_unknown_def sample_simps restock_docs_def)
  from unknown_restock_sentinel [OF c l(1) u1] unknown_restock_sentinel [OF c l(2) u2] c l u1 u2
  show ?thesis by simp
qed

text \<open>
  Claim C10. A row whose \<^verbatim>\<open>last_restock\<close> is read as a time on a day after today gets a
  negative \<^verbatim>\<open>days_since_restock\<close>, and midnight of tomorrow gets \<open>-1\<close>, the value that
  also marks an unknown date.
\<close>

theorem future_restock_negative:
  assumes "columns df \<noteq> []" and "i < length (rows df)"
    and "''last_restock'' \<in> set (columns df)"
    and "to_datetime e (column df ''last_restock'') ! i = TimeC t"
    and "today e < t div ns_per_day"
  shows "\<exists>d. (rows (clean_and_transform e df) ! i) ''days_since_restock'' = IntC d \<and> d < 0 \<and>
             (t = timestamp_of_date (today e + 1) \<longrightarrow> d = - 1)"
proof -
  have r: "restock_in e df (rows df ! i) = TimeC t"
    using assms(2,3,4) by (simp add: restock_in_def to_datetime_map column_def)
  have d: "(rows (clean_and_transform e df) ! i) ''days_since_restock''
             = IntC ((timestamp_of_date (today e) - t) div ns_per_day)"
    using assms(1,2) r by (simp add: nth_rows_clean clean_row_def day_count_def)
  have pos: "0 < ns_per_day"
    by (simp add: ns_per_day_def)
  have "(today e + 1) * ns_per_day \<le> t"
  proof -
    have "today e + 1 \<le> t div ns_per_day" using assms(5) by simp
    then have "(today e + 1) * ns_per_day \<le> (t div ns_per_day) * ns_per_day"
      using pos by (simp add: mult_right_mono)
    also have "\<dots> \<le> t"
      using pos by (metis div_mult_mod_eq le_add_same_cancel1 pos_mod_sign)
    finally show ?thesis .
  qed
  then have "timestamp_of_date (today e) - t < 0"
    using pos by (simp add: timestamp_of_date_def algebra_simps)
  then have neg: "(timestamp_of_date (today e) - t) div ns_per_day < 0"
    using pos by (simp add: pos_imp_zdiv_neg_iff)
  have one: "t = timestamp_of_date (today e + 1) \<Longrightarrow>
               (timestamp_of_date (today e) - t) div ns_per_day = - 1"
  proof -
    assume "t = timestamp_of_date (today e + 1)"
    then have "timestamp_of_date (today e) - t = - ns_per_day"
      by (simp add: timestamp_of_date_def algebra_simps)
    then show ?thesis by (simp add: ns_per_day_def)
  qed
  from d neg one show ?thesis by blast
qed

theorem future_restock_negative_witness:
  "columns (DataFrame restock_docs) \<noteq> [] \<and>
   3 < length (rows (DataFrame restock_docs)) \<and>
   ''last_restock'' \<in> set (columns (DataFrame restock_docs)) \<and>
   to_datetime env0 (column (DataFrame restock_docs) ''last_restock'') ! 3
     = TimeC (timestamp_of_date (today env0 + 1)) \<and>
   today env0 < timestamp_of_date (today env0 + 1) div ns_per_day \<and>
   (rows (clean_and_transform env0 (DataFrame restock_docs)) ! 3) ''days_since_restock''
     = IntC (- 1) \<and>
   (rows (clean_and_transform env0 (DataFrame restock_docs)) ! 2) ''days_since_restock''
     = IntC (- 1) \<and>
   restock_unknown env0 (DataFrame restock_docs) (rows (DataFrame restock_docs) ! 2) \<and>
   \<not> restock_unknown env0 (DataFrame restock_docs) (rows (DataFrame restock_docs) ! 3)"
proof -
  let ?df = "DataFrame restock_docs"
  have c: "columns ?df \<noteq> []"
    by (simp add: DataFrame_def restock_docs_def first_seen_def)
  have l: "3 < length (rows ?df)"
    by (simp add: DataFrame_def restock_docs_def)
  have m: "''last_restock'' \<in> set (columns ?df)"
    by (simp add: DataFrame_def restock_docs_def first_seen_def)
  have p: "to_datetime env0 (column ?df ''last_restock'') ! 3
             = TimeC (timestamp_of_date (today env0 + 1))"
    by (simp add: to_datetime_def sample_simps restock_docs_def)
  have f: "today env0 < timestamp_of_date (today env0 + 1) div ns_per_day"
    by (simp add: sample_simps)
  have s: "(rows (clean_and_transform env0 ?df) ! 2) ''days_since_restock'' = IntC (- 1)"
    using c by (simp add: nth_rows_clean DataFrame_def restock_docs_def)
      (simp add: sample_simps restock_docs_def)
  have u: "restock_unknown env0 ?df (rows ?df ! 2)"
    by (simp add: restock_unknown_def sample_simps restock_docs_def)
  have n: "\<not> restock_unknown env0 ?df (rows ?df ! 3)"
    by (simp add: restock_unknown_def sample_simps restock_docs_def)
  from future_restock_negative [OF c l m p f] c l m p f s u n show ?thesis
    by auto
qed





section \<open>Cleaning twice, and the caller's table\<close>

lemma add_col_mem: "c \<in> set cs \<Longrightarrow> add_col c cs = cs"
  by (simp add: add_col_def)

lemma set_clean_columns:
  "set (clean_columns cs) =
     set cs \<union> {''quantity'', ''price'', ''last_restock'', ''name'', ''sku'', ''value'',
       ''days_since_restock''}"
  by (simp add: clean_columns_def set_add_col insert_commute Un_commute)

lemma clean_columns_again: "clean_columns (clean_columns cs) = clean_columns cs"
proof -
  have "add_col ''quantity'' (clean_columns cs) = clean_columns cs"
       "add_col ''price'' (clean_columns cs) = clean_columns cs"
       "add_col ''last_restock'' (clean_columns cs) = clean_columns cs"
       "add_col ''name'' (clean_columns cs) = clean_columns cs"
       "add_col ''sku'' (clean_columns cs) = clean_columns cs"
       "add_col ''value'' (clean_columns cs) = clean_columns cs"
       "add_col ''days_since_restock'' (clean_columns cs) = clean_columns cs"
    by (simp_all add: add_col_mem set_clean_columns)
  then show ?thesis
    by (simp add: clean_columns_def [of "clean_columns cs"])
qed

lemma not_empty_clean: "\<not> empty_df df \<Longrightarrow> \<not> empty_df (clean_and_transform e df)"
proof -
  assume ne: "\<not> empty_df df"
  have "set (columns (clean_and_transform e df)) \<noteq> {}"
    using ne by (simp add: columns_clean set_clean_columns)
  moreover have "length (rows (clean_and_transform e df)) \<noteq> 0"
    using ne by (simp add: length_rows_clean empty_df_def)
  ultimately show ?thesis
    by (auto simp: empty_df_def)
qed

lemma clean_row_again:
  assumes "''name'' \<in> set (columns df)" and "''sku'' \<in> set (columns df)" and "\<not> empty_df df"
  shows "clean_row e (clean_and_transform e df) (clean_row e df r) = clean_row e df r"
proof -
  have cols: "set (columns (clean_and_transform e df)) =
      set (columns df) \<union> {''quantity'', ''price'', ''last_restock'', ''name'', ''sku'', ''value'',
        ''days_since_restock''}"
    using assms(3) by (simp add: columns_clean set_clean_columns)
  have d: "coerce_date e s (restock_in e df r) = restock_in e df r" for s
    by (simp add: restock_in_def coerce_date_def split: cell.splits option.splits)
  show ?thesis
    using assms(1,2)
    by (intro ext)
      (simp add: clean_row_def cols quantity_in_def price_in_def restock_in_def [of e "clean_and_transform e df"]
        text_in_def coerce_quantity_def coerce_price_def d)
qed

text \<open>
  When the table has a \<^verbatim>\<open>name\<close> and a \<^verbatim>\<open>sku\<close> column, cleaning the cleaned table
  changes nothing.
\<close>

lemma clean_twice_when_named:
  assumes "''name'' \<in> set (columns df)" and "''sku'' \<in> set (columns df)"
  shows "clean_and_transform e (clean_and_transform e df) = clean_and_transform e df"
proof (cases "empty_df df")
  case True
  then show ?thesis by (simp add: clean_and_transform_def)
next
  case False
  then have ne: "\<not> empty_df (clean_and_transform e df)"
    by (rule not_empty_clean)
  have c: "columns (clean_and_transform e (clean_and_transform e df)) = columns (clean_and_transform e df)"
    using False ne by (simp add: columns_clean clean_columns_again)
  have r: "rows (clean_and_transform e (clean_and_transform e df)) = rows (clean_and_transform e df)"
    using False ne assms by (simp add: rows_clean clean_row_again)
  have m: "dataframe.more (clean_and_transform e (clean_and_transform e df)) = dataframe.more (clean_and_transform e df)"
    by simp
  from c r show ?thesis by (intro dataframe.equality) simp_all
qed

text \<open>
  Claim C7. The specification asks that running the cleaning on its own output gives the
  same table. On a table with no \<^verbatim>\<open>name\<close> column the code does not: the default of
  \<^verbatim>\<open>df.get\<close> is an empty series, \<^verbatim>\<open>fillna('Unknown')\<close> fills nothing in it, and its
  alignment on the table leaves every name missing; the second run finds the
  column and fills it with \<^verbatim>\<open>Unknown\<close>.
\<close>

theorem nameless_table_cleaned_twice:
  "(rows (clean_and_transform env0 (DataFrame nameless_docs)) ! 0) ''name'' = NA \<and>
   (rows (clean_and_transform env0 (clean_and_transform env0 (DataFrame nameless_docs))) ! 0) ''name''
     = StrC ''Unknown'' \<and>
   clean_and_transform env0 (clean_and_transform env0 (DataFrame nameless_docs))
     \<noteq> clean_and_transform env0 (DataFrame nameless_docs)"
proof -
  let ?df = "DataFrame nameless_docs"
  have e1: "\<not> empty_df ?df"
    by (simp add: empty_df_def DataFrame_def nameless_docs_def first_seen_def)
  then have e2: "\<not> empty_df (clean_and_transform env0 ?df)"
    by (rule not_empty_clean)
  have c1: "''name'' \<notin> set (columns ?df)"
    by (simp add: DataFrame_def nameless_docs_def first_seen_def)
  have c2: "''name'' \<in> set (columns (clean_and_transform env0 ?df))"
    using e1 by (simp add: columns_clean set_clean_columns)
  have l: "rows ?df = [row_of_doc (hd nameless_docs)]"
    by (simp add: DataFrame_def nameless_docs_def)
  have a: "(rows (clean_and_transform env0 ?df) ! 0) ''name'' = NA"
    using e1 c1 by (simp add: rows_clean l clean_row_def text_in_def)
  have b: "(rows (clean_and_transform env0 (clean_and_transform env0 ?df)) ! 0) ''name''
             = StrC ''Unknown''"
    using e1 e2 c1 c2 by (simp add: rows_clean l clean_row_def text_in_def)
  from a b have "clean_and_transform env0 (clean_and_transform env0 ?df) \<noteq> clean_and_transform env0 ?df"
    by auto
  with a b show ?thesis by simp
qed

text \<open>
  The cleaned table depends on the day of the call: a day later, the day counts differ.
\<close>

lemma clean_depends_on_today:
  "clean_and_transform (env0\<lparr>today := 20397\<rparr>) (DataFrame restock_docs)
     \<noteq> clean_and_transform env0 (DataFrame restock_docs)"
proof -
  let ?df = "DataFrame restock_docs"
  have ne: "\<not> empty_df ?df"
    by (simp add: empty_df_def DataFrame_def restock_docs_def first_seen_def)
  have l: "rows ?df ! 0 = row_of_doc (hd restock_docs)"
    by (simp add: DataFrame_def restock_docs_def)
  have a: "(rows (clean_and_transform env0 ?df) ! 0) ''days_since_restock'' = IntC 34"
    using ne by (simp add: nth_rows_clean empty_df_def l) (simp add: sample_simps restock_docs_def)
  have b: "(rows (clean_and_transform (env0\<lparr>today := 20397\<rparr>) ?df) ! 0) ''days_since_restock''
             = IntC 35"
    using ne by (simp add: nth_rows_clean empty_df_def l) (simp add: sample_simps restock_docs_def)
  from a b show ?thesis
    by auto
qed






section \<open>Category rollup\<close>
















section \<open>Top products and low stock\<close>

lemma length_sort_values:
  "is_sort_values c asc df s \<Longrightarrow> length (rows s) = length (rows df)"
  by (metis is_sort_values_def size_mset)

lemma mset_take_drop: "mset xs = mset (take n xs) + mset (drop n xs)"
  by (metis append_take_drop_id mset_append)

lemma mset_take_subset: "mset xs = mset ys \<Longrightarrow> mset (take n xs) \<subseteq># mset ys"
  by (metis mset_take_drop mset_subset_eq_add_left)

lemma mset_minus_take: "mset xs = mset ys \<Longrightarrow> mset ys - mset (take n xs) = mset (drop n xs)"
  by (metis mset_take_drop add_diff_cancel_left')

lemma sorted_wrt_take_drop:
  "sorted_wrt R xs \<Longrightarrow> a \<in> set (take n xs) \<Longrightarrow> b \<in> set (drop n xs) \<Longrightarrow> R a b"
  by (metis append_take_drop_id sorted_wrt_append)

text \<open>
  The first \<open>n\<close> rows of any result of \<^verbatim>\<open>sort_values\<close>: as many as there are, up to
  \<open>n\<close>; rows of the table; in order; and no row left out belongs before one of them.
\<close>

lemma prefix_of_sort_values:
  assumes "is_sort_values c asc df s"
  shows "length (take n (rows s)) = min n (length (rows df)) \<and>
         mset (take n (rows s)) \<subseteq># mset (rows df) \<and>
         sorted_wrt (\<lambda>a b. in_order asc (a c) (b c)) (take n (rows s)) \<and>
         (\<forall>a \<in> set (take n (rows s)). \<forall>b \<in># mset (rows df) - mset (take n (rows s)).
            in_order asc (a c) (b c))"
proof -
  from assms have m: "mset (rows s) = mset (rows df)"
    and srt: "sorted_wrt (\<lambda>a b. in_order asc (a c) (b c)) (rows s)"
    by (simp_all add: is_sort_values_def)
  have l: "length (take n (rows s)) = min n (length (rows df))"
    using length_sort_values [OF assms] by simp
  have r: "mset (rows df) - mset (take n (rows s)) = mset (drop n (rows s))"
    using m by (rule mset_minus_take)
  have o: "\<forall>a \<in> set (take n (rows s)). \<forall>b \<in># mset (drop n (rows s)). in_order asc (a c) (b c)"
    using sorted_wrt_take_drop [OF srt] by auto
  from l mset_take_subset [OF m] srt o show ?thesis
    by (simp only: r sorted_wrt_take)
qed


lemma float_val_num_key: "num_key x = Some v \<Longrightarrow> float_val x = v"
  by (auto simp: num_key_def float_val_def split: cell.splits)

text \<open>
  On a column of numbers the stable sort is one of the results of \<^verbatim>\<open>sort_values\<close>.
\<close>

lemma stable_sort_values_admissible:
  assumes "\<forall>r \<in> set (rows df). num_key (r c) \<noteq> None"
  shows "is_sort_values c asc df (stable_sort_values c asc df)"
proof -
  let ?f = "\<lambda>r. if asc then float_val (r c) else - float_val (r c)"
  let ?xs = "sort_key ?f (rows df)"
  have "sorted (map ?f ?xs)"
    by (rule sorted_sort_key)
  then have s: "sorted_wrt (\<lambda>a b. ?f a \<le> ?f b) ?xs"
    by (simp add: sorted_map)
  have k: "in_order asc (a c) (b c)" if "a \<in> set ?xs" "b \<in> set ?xs" "?f a \<le> ?f b" for a b
  proof -
    from that(1) assms have "num_key (a c) \<noteq> None" by simp
    then obtain x where "num_key (a c) = Some x" by blast
    moreover from that(2) assms have "num_key (b c) \<noteq> None" by simp
    then obtain y where "num_key (b c) = Some y" by blast
    ultimately have "num_key (a c) = Some x" "num_key (b c) = Some y" by simp_all
    with that(3) show ?thesis
      by (auto simp: in_order_def float_val_num_key split: if_splits)
  qed
  have o: "sorted_wrt (\<lambda>a b. in_order asc (a c) (b c)) ?xs"
    using s k by (rule sorted_wrt_mono_rel [rotated]) 
  have n: "filter (\<lambda>r. num_key (r c) = None) ?xs = []"
          "filter (\<lambda>r. num_key (r c) = None) (rows df) = []"
    using assms by (auto simp: filter_empty_conv)
  show ?thesis
    using o n by (simp add: is_sort_values_def stable_sort_values_def)
qed





lemma num_key_le_thresh: "le_thresh x t \<Longrightarrow> num_key x = Some (float_val x)"
  by (auto simp: le_thresh_def num_key_def float_val_def split: cell.splits)

lemma in_order_le_thresh:
  "le_thresh x t \<Longrightarrow> le_thresh y t \<Longrightarrow> in_order True x y \<longleftrightarrow> float_val x \<le> float_val y"
  by (simp add: in_order_def num_key_le_thresh)

text \<open>
  Claim C6. Every result of the low-stock computation has the table's columns and holds
  rows of the table with \<^verbatim>\<open>quantity <= threshold\<close> only, in ascending order of quantity:
  the first 20 of them, so all of them when there are at most 20, and otherwise no row
  left out has a smaller quantity than a row listed.
\<close>

theorem low_stock_selection:
  assumes "low t df out"
  shows "columns out = columns df \<and>
         length (rows out) =
           min 20 (length (filter (\<lambda>r. le_thresh (r ''quantity'') t) (rows df))) \<and>
         mset (rows out) \<subseteq># mset (filter (\<lambda>r. le_thresh (r ''quantity'') t) (rows df)) \<and>
         (\<forall>r \<in> set (rows out). le_thresh (r ''quantity'') t) \<and>
         sorted (map (\<lambda>r. float_val (r ''quantity'')) (rows out)) \<and>
         (\<forall>a \<in> set (rows out).
            \<forall>b \<in># mset (filter (\<lambda>r. le_thresh (r ''quantity'') t) (rows df)) - mset (rows out).
              float_val (a ''quantity'') \<le> float_val (b ''quantity'')) \<and>
         (length (filter (\<lambda>r. le_thresh (r ''quantity'') t) (rows df)) \<le> 20 \<longrightarrow>
            mset (rows out) = mset (filter (\<lambda>r. le_thresh (r ''quantity'') t) (rows df)))"
  using assms
proof cases
  case (lowI s)
  let ?sel = "select_rows (\<lambda>r. le_thresh (r ''quantity'') t) df"
  let ?F = "filter (\<lambda>r. le_thresh (r ''quantity'') t) (rows df)"
  let ?T = "take 20 (rows s)"
  have rs: "rows ?sel = ?F" and cs: "columns ?sel = columns df"
    by (simp_all add: select_rows_def)
  from lowI(3) have m: "mset (rows s) = mset ?F" and c: "columns s = columns df"
    by (simp_all add: is_sort_values_def rs cs)
  have p: "length ?T = min 20 (length ?F) \<and>
         mset ?T \<subseteq># mset ?F \<and>
         sorted_wrt (\<lambda>a b. in_order True (a ''quantity'') (b ''quantity'')) ?T \<and>
         (\<forall>a \<in> set ?T. \<forall>b \<in># mset ?F - mset ?T.
            in_order True (a ''quantity'') (b ''quantity''))"
    by (rule prefix_of_sort_values [OF lowI(3), of 20, unfolded rs])
  from p have l: "length ?T = min 20 (length ?F)" by (rule conjunct1)
  from p have sub: "mset ?T \<subseteq># mset ?F" by (elim conjE)
  from p have srt: "sorted_wrt (\<lambda>a b. in_order True (a ''quantity'') (b ''quantity'')) ?T"
    by (elim conjE)
  from p have rest: "\<forall>a \<in> set ?T. \<forall>b \<in># mset ?F - mset ?T.
      in_order True (a ''quantity'') (b ''quantity'')"
    by (elim conjE)
  have inF: "le_thresh (r ''quantity'') t" if "r \<in># mset ?F" for r
    using that by simp
  have inT: "le_thresh (r ''quantity'') t" if "r \<in> set ?T" for r
  proof -
    from that have "r \<in># mset ?T" by simp
    with sub have "r \<in># mset ?F" by (rule mset_subset_eqD)
    then show ?thesis by (rule inF)
  qed
  have "sorted_wrt (\<lambda>a b. float_val (a ''quantity'') \<le> float_val (b ''quantity'')) ?T"
    using srt by (rule sorted_wrt_mono_rel [rotated]) (simp add: in_order_le_thresh [of _ t] inT)
  then have srt': "sorted (map (\<lambda>r. float_val (r ''quantity'')) ?T)"
    by (simp add: sorted_map)
  have rest': "\<forall>a \<in> set ?T. \<forall>b \<in># mset ?F - mset ?T.
      float_val (a ''quantity'') \<le> float_val (b ''quantity'')"
  proof (intro ballI)
    fix a b
    assume a: "a \<in> set ?T" and b: "b \<in># mset ?F - mset ?T"
    from b have bF: "b \<in># mset ?F" by (rule in_diffD)
    from rest a b have "in_order True (a ''quantity'') (b ''quantity'')" by blast
    then show "float_val (a ''quantity'') \<le> float_val (b ''quantity'')"
      by (simp only: in_order_le_thresh [OF inT [OF a] inF [OF bF]])
  qed
  have all: "length ?F \<le> 20 \<longrightarrow> mset ?T = mset ?F"
  proof
    assume le: "length ?F \<le> 20"
    have "size (mset (rows s)) = size (mset ?F)" by (simp only: m)
    then have "length (rows s) = length ?F" by (simp only: size_mset)
    with le have "?T = rows s" by simp
    then show "mset ?T = mset ?F" by (simp only: m)
  qed
  have inT': "\<forall>r \<in> set ?T. le_thresh (r ''quantity'') t"
    using inT by blast
  have ro: "rows out = ?T" and co: "columns out = columns df"
    by (simp_all add: lowI(1) head_def c)
  from co l sub inT' srt' rest' all show ?thesis
    unfolding ro by (intro conjI)
qed

text \<open>
  The computation has a result whenever the table has a \<^verbatim>\<open>quantity\<close> column.
\<close>

lemma low_exists:
  assumes "''quantity'' \<in> set (columns df)"
  shows "low t df (head 20 (stable_sort_values ''quantity'' True
           (select_rows (\<lambda>r. le_thresh (r ''quantity'') t) df)))"
proof -
  have "\<forall>r \<in> set (rows (select_rows (\<lambda>r. le_thresh (r ''quantity'') t) df)).
          num_key (r ''quantity'') \<noteq> None"
    by (auto simp: select_rows_def dest: num_key_le_thresh)
  from lowI [OF assms stable_sort_values_admissible [OF this]] show ?thesis .
qed

lemma stock_cells:
  "map (\<lambda>r. (r ''name'', r ''quantity''))
     (rows (clean_and_transform env0 (DataFrame stock_docs))) =
   [(StrC ''a'', IntC 50), (StrC ''b'', IntC 10), (StrC ''c'', IntC 5), (StrC ''d'', IntC 10)]"
proof -
  have "\<not> empty_df (DataFrame stock_docs)"
    by (simp add: empty_df_def DataFrame_def stock_docs_def first_seen_def)
  then show ?thesis
    by (simp add: rows_clean) (simp add: sample_simps stock_docs_def)
qed

theorem low_stock_selection_witness:
  "low 30 (clean_and_transform env0 (DataFrame stock_docs))
     (clean_and_transform env0 (DataFrame stock_docs)
        \<lparr>rows := [rows (clean_and_transform env0 (DataFrame stock_docs)) ! 2,
                  rows (clean_and_transform env0 (DataFrame stock_docs)) ! 3,
                  rows (clean_and_transform env0 (DataFrame stock_docs)) ! 1]\<rparr>) \<and>
   map (\<lambda>r. (r ''name'', r ''quantity''))
     [rows (clean_and_transform env0 (DataFrame stock_docs)) ! 2,
      rows (clean_and_transform env0 (DataFrame stock_docs)) ! 3,
      rows (clean_and_transform env0 (DataFrame stock_docs)) ! 1]
     = [(StrC ''c'', IntC 5), (StrC ''d'', IntC 10), (StrC ''b'', IntC 10)] \<and>
   length (filter (\<lambda>r. le_thresh (r ''quantity'') 30)
     (rows (clean_and_transform env0 (DataFrame stock_docs)))) = 3 \<and>
   mset [rows (clean_and_transform env0 (DataFrame stock_docs)) ! 2,
         rows (clean_and_transform env0 (DataFrame stock_docs)) ! 3,
         rows (clean_and_transform env0 (DataFrame stock_docs)) ! 1]
     = mset (filter (\<lambda>r. le_thresh (r ''quantity'') 30)
         (rows (clean_and_transform env0 (DataFrame stock_docs)))) \<and>
   sorted (map (\<lambda>r. float_val (r ''quantity''))
     [rows (clean_and_transform env0 (DataFrame stock_docs)) ! 2,
      rows (clean_and_transform env0 (DataFrame stock_docs)) ! 3,
      rows (clean_and_transform env0 (DataFrame stock_docs)) ! 1])"
proof -
  let ?D = "clean_and_transform env0 (DataFrame stock_docs)"
  obtain ra rb rc rd where r: "rows ?D = [ra, rb, rc, rd]"
    and ra: "ra ''name'' = StrC ''a''" "ra ''quantity'' = IntC 50"
    and rb: "rb ''name'' = StrC ''b''" "rb ''quantity'' = IntC 10"
    and rc: "rc ''name'' = StrC ''c''" "rc ''quantity'' = IntC 5"
    and rd: "rd ''name'' = StrC ''d''" "rd ''quantity'' = IntC 10"
    using stock_cells by (auto simp: map_eq_Cons_conv)
  have ne: "\<not> empty_df (DataFrame stock_docs)"
    by (simp add: empty_df_def DataFrame_def stock_docs_def first_seen_def)
  then have q: "''quantity'' \<in> set (columns ?D)"
    by (simp add: columns_clean set_clean_columns)
  have f: "filter (\<lambda>r. le_thresh (r ''quantity'') 30) (rows ?D) = [rb, rc, rd]"
    by (simp add: r ra rb rc rd le_thresh_def)
  have "is_sort_values ''quantity'' True (select_rows (\<lambda>r. le_thresh (r ''quantity'') 30) ?D)
          (?D\<lparr>rows := [rc, rd, rb]\<rparr>)"
    by (simp add: is_sort_values_def select_rows_def f rb rc rd in_order_def num_key_def
        add_mset_commute)
  from lowI [OF q this] have a: "low 30 ?D (?D\<lparr>rows := [rc, rd, rb]\<rparr>)"
    by (simp add: head_def)
  from low_stock_selection [OF a] a show ?thesis
    by (simp add: r f ra rb rc rd float_val_def add_mset_commute)
qed

text \<open>
  The computation has a result on every cleaned table; the stable order is one.
\<close>

lemma top_by_value_exists:
  assumes "\<not> empty_df df"
  shows "top_by_value (clean_and_transform e df)
           (name_value (head 10 (stable_sort_values ''value'' False (clean_and_transform e df))))"
proof -
  have c: "''value'' \<in> set (columns (clean_and_transform e df))"
          "''name'' \<in> set (columns (clean_and_transform e df))"
    using assms by (simp_all add: columns_clean set_clean_columns)
  have "\<forall>r \<in> set (rows (clean_and_transform e df)). num_key (r ''value'') \<noteq> None"
    using assms by (simp add: rows_clean clean_row_def num_key_def)
  from top_by_valueI [OF c stable_sort_values_admissible [OF this]] show ?thesis .
qed


section \<open>Export headers\<close>

lemma csv_field_plain: "\<not> needs_quotes s \<Longrightarrow> csv_field s = s"
  by (simp add: csv_field_def)

lemma map_csv_field_plain: "\<forall>c \<in> set cs. \<not> needs_quotes c \<Longrightarrow> map csv_field cs = cs"
  by (simp add: csv_field_plain map_idI)

lemma newline_join:
  "\<forall>c \<in> set cs. newline \<notin> set c \<Longrightarrow> newline \<notin> set (join comma cs)"
  by (induction comma cs rule: join.induct) (auto simp: newline_def comma_def)

lemma plain_no_newline: "\<not> needs_quotes c \<Longrightarrow> newline \<notin> set c"
  by (auto simp: needs_quotes_def)

lemma csv_header_bom:
  assumes "newline \<notin> set l"
  shows "csv_header (bom @ l @ newline # rest) = l"
proof -
  have "take 3 (bom @ l @ newline # rest) = bom" "drop 3 (bom @ l @ newline # rest) = l @ newline # rest"
    by (simp_all add: bom_def)
  then show ?thesis
    using assms by (simp add: csv_header_def takeWhile_append)
qed

lemma to_csv_header: "\<exists>rest. to_csv e df = csv_line (columns df) @ rest"
  by (simp add: to_csv_def)

lemma bytes_header:
  assumes "\<not> empty_df df"
  shows "\<exists>rest. dataframe_to_csv_bytes_local e df True = bom @ csv_line (columns df) @ rest"
  using assms by (simp add: dataframe_to_csv_bytes_local_def to_csv_def)

text \<open>
  The exported bytes of a table that is not empty start with the mark and the line of its
  column labels; when no label needs quotes that line is the labels joined by commas.
\<close>

lemma csv_header_plain:
  assumes "\<not> empty_df df" and "\<forall>c \<in> set (columns df). \<not> needs_quotes c"
  shows "csv_header (dataframe_to_csv_bytes_local e df True) = join comma (columns df)"
proof -
  from bytes_header [OF assms(1)] obtain rest where
    "dataframe_to_csv_bytes_local e df True = bom @ csv_line (columns df) @ rest" ..
  then have b: "dataframe_to_csv_bytes_local e df True
      = bom @ join comma (columns df) @ newline # rest"
    using assms(2) by (simp add: csv_line_def map_csv_field_plain)
  have "newline \<notin> set (join comma (columns df))"
    using assms(2) by (intro newline_join) (simp add: plain_no_newline)
  then have "csv_header (bom @ join comma (columns df) @ newline # rest) = join comma (columns df)"
    by (rule csv_header_bom)
  then show ?thesis
    by (simp only: b)
qed

lemma display_order_plain: "\<forall>c \<in> set display_order. \<not> needs_quotes c"
  by (simp add: display_order_def needs_quotes_def comma_def dquote_def newline_def)

lemma display_cols_plain: "\<forall>c \<in> set (display_cols df). \<not> needs_quotes c"
  using display_order_plain by (simp add: display_cols_def)

lemma display_cols_not_Nil: "\<not> empty_df df \<Longrightarrow> display_cols (clean_and_transform e df) \<noteq> []"
proof -
  assume "\<not> empty_df df"
  then have "''value'' \<in> set (display_cols (clean_and_transform e df))"
    by (simp add: display_cols_def columns_clean set_clean_columns display_order_def)
  then show ?thesis by auto
qed

text \<open>
  Claim C9, amended. The export of the current view has as header the labels of the fixed
  order that are columns of the cleaned table, joined by commas. The full export has as
  header the labels of the cleaned table of all documents in that table's own order: the
  keys of the documents as first met, then those of \<^verbatim>\<open>quantity\<close>, \<^verbatim>\<open>price\<close>,
  \<^verbatim>\<open>last_restock\<close>, \<^verbatim>\<open>name\<close>, \<^verbatim>\<open>sku\<close>, \<^verbatim>\<open>value\<close>, \<^verbatim>\<open>days_since_restock\<close> the
  documents lack.
\<close>

theorem export_headers:
  "(\<not> empty_df df_raw \<longrightarrow>
      csv_header (prepare_filtered e df_raw) =
        join comma (filter (\<lambda>c. c \<in> set (columns (clean_and_transform e df_raw))) display_order)) \<and>
   (\<not> empty_df (raw_docs_to_df e all_docs) \<longrightarrow>
      (\<exists>rest. download_all_now e all_docs =
         bom @ csv_line (clean_columns (columns (raw_docs_to_df e all_docs))) @ rest) \<and>
      ((\<forall>c \<in> set (columns (raw_docs_to_df e all_docs)). \<not> needs_quotes c) \<longrightarrow>
         csv_header (download_all_now e all_docs) =
           join comma (clean_columns (columns (raw_docs_to_df e all_docs)))))"
proof (intro conjI impI)
  assume ne: "\<not> empty_df df_raw"
  let ?df = "clean_and_transform e df_raw"
  let ?v = "select_columns (display_cols ?df) ?df"
  have "rows ?v \<noteq> []"
    using ne not_empty_clean [OF ne, of e] by (simp add: select_columns_def empty_df_def)
  then have nv: "\<not> empty_df ?v"
    using display_cols_not_Nil [OF ne, of e] by (simp add: empty_df_def select_columns_def)
  have "\<forall>c \<in> set (columns ?v). \<not> needs_quotes c"
    using display_cols_plain by (simp add: select_columns_def)
  from csv_header_plain [OF nv this, of e]
  show "csv_header (prepare_filtered e df_raw) =
        join comma (filter (\<lambda>c. c \<in> set (columns ?df)) display_order)"
    by (simp add: prepare_filtered_def select_columns_def display_cols_def Let_def)
next
  assume ne: "\<not> empty_df (raw_docs_to_df e all_docs)"
  from bytes_header [OF not_empty_clean [OF ne], of e e]
  show "\<exists>rest. download_all_now e all_docs =
         bom @ csv_line (clean_columns (columns (raw_docs_to_df e all_docs))) @ rest"
    using ne by (simp add: download_all_now_def columns_clean)
next
  assume ne: "\<not> empty_df (raw_docs_to_df e all_docs)"
    and pl: "\<forall>c \<in> set (columns (raw_docs_to_df e all_docs)). \<not> needs_quotes c"
  have "\<forall>c \<in> set (clean_columns (columns (raw_docs_to_df e all_docs))). \<not> needs_quotes c"
    using pl by (simp add: set_clean_columns needs_quotes_def comma_def dquote_def newline_def)
  then have "\<forall>c \<in> set (columns (clean_and_transform e (raw_docs_to_df e all_docs))). \<not> needs_quotes c"
    using ne by (simp add: columns_clean)
  from csv_header_plain [OF not_empty_clean [OF ne] this, of e]
  show "csv_header (download_all_now e all_docs) =
           join comma (clean_columns (columns (raw_docs_to_df e all_docs)))"
    using ne by (simp add: download_all_now_def columns_clean)
qed

lemma seeded_columns:
  "columns (raw_docs_to_df env0 seeded_docs) =
     [''sku'', ''name'', ''category'', ''quantity'', ''price'', ''supplier'', ''last_restock'', ''id'']"
  by (simp add: raw_docs_to_df_def DataFrame_def tag_id_def seeded_docs_def first_seen_def)

lemma seeded_not_empty: "\<not> empty_df (raw_docs_to_df env0 seeded_docs)"
  by (simp add: empty_df_def seeded_columns) (simp add: raw_docs_to_df_def DataFrame_def seeded_docs_def)

lemma seeded_clean_columns:
  "columns (clean_and_transform env0 (raw_docs_to_df env0 seeded_docs)) =
     [''sku'', ''name'', ''category'', ''quantity'', ''price'', ''supplier'', ''last_restock'', ''id'',
      ''value'', ''days_since_restock'']"
  by (simp add: columns_clean seeded_not_empty seeded_columns clean_columns_def add_col_def)

text \<open>
  The specification asks that every export lists its columns in the order \<^verbatim>\<open>sku, name,
  category, quantity, price, value, supplier, last_restock, days_since_restock, id\<close>.
  The full export of a seeded product lists \<^verbatim>\<open>id\<close> after \<^verbatim>\<open>last_restock\<close>, then
  \<^verbatim>\<open>value\<close> and \<^verbatim>\<open>days_since_restock\<close>: the order of the table's own columns.
\<close>

theorem full_export_header_counterexample:
  "csv_header (download_all_now env0 seeded_docs) =
     ''sku,name,category,quantity,price,supplier,last_restock,id,value,days_since_restock'' \<and>
   join comma (filter (\<lambda>c. c \<in> set (columns (clean_and_transform env0 (raw_docs_to_df env0 seeded_docs))))
     display_order) =
     ''sku,name,category,quantity,price,value,supplier,last_restock,days_since_restock,id'' \<and>
   csv_header (download_all_now env0 seeded_docs) \<noteq>
     join comma (filter (\<lambda>c. c \<in> set (columns (clean_and_transform env0 (raw_docs_to_df env0 seeded_docs))))
       display_order)"
proof -
  let ?df = "clean_and_transform env0 (raw_docs_to_df env0 seeded_docs)"
  have ne: "\<not> empty_df ?df"
    by (rule not_empty_clean [OF seeded_not_empty])
  have pl: "\<forall>c \<in> set (columns ?df). \<not> needs_quotes c"
    by (simp add: seeded_clean_columns needs_quotes_def comma_def dquote_def newline_def)
  have a: "csv_header (download_all_now env0 seeded_docs) =
     ''sku,name,category,quantity,price,supplier,last_restock,id,value,days_since_restock''"
    using csv_header_plain [OF ne pl, of env0]
    by (simp add: download_all_now_def seeded_clean_columns comma_def)
  have b: "join comma (filter (\<lambda>c. c \<in> set (columns ?df)) display_order) =
     ''sku,name,category,quantity,price,value,supplier,last_restock,days_since_restock,id''"
    by (simp add: seeded_clean_columns display_order_def comma_def)
  show ?thesis
    by (simp only: a b) simp
qed

theorem export_headers_witness:
  "\<not> empty_df (raw_docs_to_df env0 seeded_docs) \<and>
   csv_header (prepare_filtered env0 (raw_docs_to_df env0 seeded_docs)) =
     ''sku,name,category,quantity,price,value,supplier,last_restock,days_since_restock,id'' \<and>
   (\<exists>rest. download_all_now env0 seeded_docs =
      bom @ csv_line [''sku'', ''name'', ''category'', ''quantity'', ''price'', ''supplier'',
        ''last_restock'', ''id'', ''value'', ''days_since_restock''] @ rest) \<and>
   csv_header (download_all_now env0 seeded_docs) =
     ''sku,name,category,quantity,price,supplier,last_restock,id,value,days_since_restock''"
proof -
  have pl: "\<forall>c \<in> set (columns (raw_docs_to_df env0 seeded_docs)). \<not> needs_quotes c"
    by (simp add: seeded_columns needs_quotes_def comma_def dquote_def newline_def)
  have c: "clean_columns (columns (raw_docs_to_df env0 seeded_docs)) =
     [''sku'', ''name'', ''category'', ''quantity'', ''price'', ''supplier'', ''last_restock'', ''id'',
      ''value'', ''days_since_restock'']"
    using seeded_clean_columns by (simp add: columns_clean seeded_not_empty)
  from export_headers [of "raw_docs_to_df env0 seeded_docs" env0 seeded_docs] seeded_not_empty pl
  show ?thesis
    by (simp add: c seeded_clean_columns display_order_def comma_def)
qed


end
